theory Spec2Isabelle
  imports Complex_Main
begin

section \<open>Python values, exceptions and the observable trace\<close>

text \<open>
  The controller in \<^verbatim>\<open>canopen_controller.py\<close> receives untyped Python arguments and
  tests them with \<^verbatim>\<open>type(x) is int\<close> and \<^verbatim>\<open>type(x) is list\<close>. A \<^verbatim>\<open>bool\<close> is its own
  type, so \<^verbatim>\<open>type(True) is int\<close> is false.
\<close>

datatype pyval =
    PNone
  | PBool bool
  | PInt int
  | PFloat real
  | PStr string
  | PList "pyval list"

text \<open>
  One constructor per \<^verbatim>\<open>raise\<close> of the source, carrying the values the message is
  formatted from; \<open>LibError\<close> stands for any exception raised inside the canopen library.
  All of them are subclasses of \<^verbatim>\<open>Exception\<close>.
\<close>

datatype exn =
    TypeError_OnlyIntegers          \<comment> \<open>line 79: TypeError("Only integers are allowed for node ID")\<close>
  | Exc_NotInRange int              \<comment> \<open>line 82: "Node ID {} is not in the range [0,127]"\<close>
  | Exc_NotAvailableIn int "int list"  \<comment> \<open>line 86: "Node ID {} is not available in {}"\<close>
  | Exc_NotList                     \<comment> \<open>lines 131, 145: "node_ids should be a list of at least one node ID"\<close>
  | Exc_NotInt pyval                \<comment> \<open>line 150: "Node ID {} is not int"\<close>
  | Exc_NotAvailable int            \<comment> \<open>line 153: "Node ID {} is not available. Skipping operation enabling."\<close>
  | Exc_Timeout int                 \<comment> \<open>line 160: "Timeout when trying to change state of node ID {}"\<close>
  | LibError string

text \<open>Every call into the canopen library that reaches the bus, in the order made.\<close>

datatype call =
    Connect
  | Check
  | Search
  | NmtWrite int string
  | StopNodeGuarding int
  | SyncStop
  | Disconnect
  | StateWrite int string
  | StateRead int

datatype logmsg =
    LogInfo_AvailableNodes "int list"
  | LogError string
  | LogError_NotInRange int
  | LogError_NotAvailable int "int list"
  | LogError_Exc exn

section \<open>The canopen network object\<close>

text \<open>
  What a node object of the network holds on the host: the NMT state the NMT master last
  set, and whether node guarding runs. The DS402 state is not held: \<^verbatim>\<open>node.state\<close> is
  read from the device each time.
\<close>

record node =
  nmt_state :: string
  guarding :: bool

text \<open>
  \<open>nodes\<close> is the dictionary of \<^verbatim>\<open>canopen.Network\<close> (iteration, membership and indexing
  of the network go to it), kept in insertion order. \<open>scanner_nodes\<close> is
  \<^verbatim>\<open>network.scanner.nodes\<close>. The remaining fields record what the controller did:
  the library calls, the log, the time slept, and how many state and clock reads
  were made (they index the behaviour of the bus below).
\<close>

record network =
  connected :: bool
  nodes :: "(int \<times> node) list"
  scanner_nodes :: "int list"
  sync_running :: bool
  calls :: "call list"
  logs :: "logmsg list"
  slept :: real
  state_reads :: nat
  time_reads :: nat

text \<open>
  The behaviour of the library, the bus, the devices and the clock, which the
  controller cannot choose: which calls raise, which node ids answer the scan, what
  the k-th read of a node's state returns, what the k-th call of \<^verbatim>\<open>time.time()\<close>
  returns (seconds).
\<close>

record bus =
  connect_err :: "exn option"
  check_err :: "exn option"
  search_res :: "exn + int list"
  nmt_write_err :: "int \<Rightarrow> exn option"
  stop_guard_err :: "int \<Rightarrow> exn option"
  sync_stop_err :: "exn option"
  disconnect_err :: "exn option"
  state_write_err :: "int \<Rightarrow> exn option"
  observe :: "int \<Rightarrow> nat \<Rightarrow> exn + string"
  time_at :: "nat \<Rightarrow> real"

record config =
  channel :: string
  bustype :: string
  bitrate :: int
  node_ids :: "pyval list option"
  debug :: bool

definition fresh_network :: network where
  "fresh_network =
     \<lparr>connected = False, nodes = [], scanner_nodes = [], sync_running = False,
      calls = [], logs = [], slept = 0, state_reads = 0, time_reads = 0\<rparr>"

definition called :: "call \<Rightarrow> network \<Rightarrow> network" where
  "called c w = w\<lparr>calls := calls w @ [c]\<rparr>"

definition logged :: "logmsg \<Rightarrow> network \<Rightarrow> network" where
  "logged m w = w\<lparr>logs := logs w @ [m]\<rparr>"

definition sleep :: "real \<Rightarrow> network \<Rightarrow> network" where
  "sleep d w = w\<lparr>slept := slept w + d\<rparr>"

definition update_node :: "int \<Rightarrow> (node \<Rightarrow> node) \<Rightarrow> network \<Rightarrow> network" where
  "update_node i f w =
     w\<lparr>nodes := map (\<lambda>(k, n). if k = i then (k, f n) else (k, n)) (nodes w)\<rparr>"

definition in_network :: "int \<Rightarrow> network \<Rightarrow> bool" where
  \<comment> \<open>\<^verbatim>\<open>id in self._network\<close>\<close>
  "in_network i w = (i \<in> set (map fst (nodes w)))"

definition truthy :: "network \<Rightarrow> bool" where
  \<comment> \<open>\<^verbatim>\<open>if self._network:\<close> a mapping is true when it has at least one entry\<close>
  "truthy w = (nodes w \<noteq> [])"

definition net_connect :: "bus \<Rightarrow> network \<Rightarrow> (exn + unit) \<times> network" where
  "net_connect b w =
     (case connect_err b of
        Some e \<Rightarrow> (Inl e, called Connect w)
      | None \<Rightarrow> (Inr (), (called Connect w)\<lparr>connected := True\<rparr>))"

definition net_check :: "bus \<Rightarrow> network \<Rightarrow> (exn + unit) \<times> network" where
  "net_check b w =
     (case check_err b of
        Some e \<Rightarrow> (Inl e, called Check w)
      | None \<Rightarrow> (Inr (), called Check w))"

definition scanner_search :: "bus \<Rightarrow> network \<Rightarrow> (exn + unit) \<times> network" where
  \<comment> \<open>\<open>search_res\<close> is what \<^verbatim>\<open>scanner.nodes\<close> holds when line 72 reads it\<close>
  "scanner_search b w =
     (case search_res b of
        Inl e \<Rightarrow> (Inl e, called Search w)
      | Inr ds \<Rightarrow> (Inr (), (called Search w)\<lparr>scanner_nodes := ds\<rparr>))"

definition nmt_set_state :: "bus \<Rightarrow> int \<Rightarrow> string \<Rightarrow> network \<Rightarrow> (exn + unit) \<times> network" where
  \<comment> \<open>\<^verbatim>\<open>node.nmt.state = s\<close>: the NMT master sets its own state first and then sends the
      command, so the node object holds \<open>s\<close> also when the send raises\<close>
  "nmt_set_state b i s w =
     (let w1 = update_node i (\<lambda>n. n\<lparr>nmt_state := s\<rparr>) (called (NmtWrite i s) w) in
      case nmt_write_err b i of
        Some e \<Rightarrow> (Inl e, w1)
      | None \<Rightarrow> (Inr (), w1))"

definition stop_node_guarding :: "bus \<Rightarrow> int \<Rightarrow> network \<Rightarrow> (exn + unit) \<times> network" where
  "stop_node_guarding b i w =
     (case stop_guard_err b i of
        Some e \<Rightarrow> (Inl e, called (StopNodeGuarding i) w)
      | None \<Rightarrow> (Inr (), update_node i (\<lambda>n. n\<lparr>guarding := False\<rparr>) (called (StopNodeGuarding i) w)))"

definition sync_stop :: "bus \<Rightarrow> network \<Rightarrow> (exn + unit) \<times> network" where
  "sync_stop b w =
     (case sync_stop_err b of
        Some e \<Rightarrow> (Inl e, called SyncStop w)
      | None \<Rightarrow> (Inr (), (called SyncStop w)\<lparr>sync_running := False\<rparr>))"

definition net_disconnect :: "bus \<Rightarrow> network \<Rightarrow> (exn + unit) \<times> network" where
  "net_disconnect b w =
     (case disconnect_err b of
        Some e \<Rightarrow> (Inl e, called Disconnect w)
      | None \<Rightarrow> (Inr (), (called Disconnect w)\<lparr>connected := False\<rparr>))"

definition set_node_state :: "bus \<Rightarrow> int \<Rightarrow> string \<Rightarrow> network \<Rightarrow> (exn + unit) \<times> network" where
  \<comment> \<open>\<^verbatim>\<open>node.state = s\<close>: the request; what the device then reports is \<open>observe\<close>\<close>
  "set_node_state b i s w =
     (case state_write_err b i of
        Some e \<Rightarrow> (Inl e, called (StateWrite i s) w)
      | None \<Rightarrow> (Inr (), called (StateWrite i s) w))"

definition get_node_state :: "bus \<Rightarrow> int \<Rightarrow> network \<Rightarrow> (exn + string) \<times> network" where
  \<comment> \<open>\<^verbatim>\<open>node.state\<close>: a read of the device; nothing is stored\<close>
  "get_node_state b i w =
     (observe b i (state_reads w),
      (called (StateRead i) w)\<lparr>state_reads := Suc (state_reads w)\<rparr>)"

definition time_time :: "bus \<Rightarrow> network \<Rightarrow> real \<times> network" where
  "time_time b w = (time_at b (time_reads w), w\<lparr>time_reads := Suc (time_reads w)\<rparr>)"

section \<open>MotorController\<close>

subsection \<open>Teardown: \<^verbatim>\<open>disconnectNetwork\<close> and the \<^verbatim>\<open>finally\<close> block of the constructor\<close>

text \<open>
  Lines 113--119 (and 97--103): the body of the \<^verbatim>\<open>for\<close> loop holds the node's two
  calls, then \<^verbatim>\<open>sync.stop()\<close>, \<^verbatim>\<open>disconnect()\<close> and \<^verbatim>\<open>return\<close>, so the loop leaves the
  function at the end of its first iteration. Nothing is caught: the first call that
  raises ends the function with that exception.
\<close>

fun teardown_loop :: "bus \<Rightarrow> int list \<Rightarrow> network \<Rightarrow> (exn + unit) \<times> network" where
  "teardown_loop b [] w = (Inr (), w)"
| "teardown_loop b (node_id # rest) w =
     (case nmt_set_state b node_id ''PRE-OPERATIONAL'' w of
        (Inl e, w1) \<Rightarrow> (Inl e, w1)
      | (Inr _, w1) \<Rightarrow>
     (case stop_node_guarding b node_id w1 of
        (Inl e, w2) \<Rightarrow> (Inl e, w2)
      | (Inr _, w2) \<Rightarrow>
     (case sync_stop b w2 of
        (Inl e, w3) \<Rightarrow> (Inl e, w3)
      | (Inr _, w3) \<Rightarrow>
     (case net_disconnect b w3 of
        (Inl e, w4) \<Rightarrow> (Inl e, w4)
      | (Inr _, w4) \<Rightarrow> (Inr (), w4)))))"

definition disconnectNetwork :: "bus \<Rightarrow> network \<Rightarrow> (exn + unit) \<times> network" where
  "disconnectNetwork b w =
     (let w0 = logged (LogError ''going to exit... stopping...'') w in
      if truthy w0 then teardown_loop b (map fst (nodes w0)) w0 else (Inr (), w0))"

subsection \<open>The constructor\<close>

fun validate_node_ids :: "pyval list \<Rightarrow> network \<Rightarrow> (exn + unit) \<times> network" where
  "validate_node_ids [] w = (Inr (), w)"
| "validate_node_ids (v # ids) w =
     (case v of
        PInt i \<Rightarrow>
          if i < 0 \<or> i > 127 then
            (Inl (Exc_NotInRange i), logged (LogError_NotInRange i) w)
          else if \<not> (i \<in> set (scanner_nodes w)) then
            (Inl (Exc_NotAvailableIn i (scanner_nodes w)),
             logged (LogError_NotAvailable i (scanner_nodes w)) w)
          else validate_node_ids ids w
      | _ \<Rightarrow>
          (Inl TypeError_OnlyIntegers,
           logged (LogError ''Only integers are allowed for node ID'') w))"

definition init_try :: "bus \<Rightarrow> config \<Rightarrow> network \<Rightarrow> (exn + unit) \<times> network" where
  \<comment> \<open>the body of \<^verbatim>\<open>try\<close>, lines 64--86\<close>
  "init_try b cfg w =
     (case net_connect b w of
        (Inl e, w1) \<Rightarrow> (Inl e, w1)
      | (Inr _, w1) \<Rightarrow>
     (case net_check b w1 of
        (Inl e, w2) \<Rightarrow> (Inl e, w2)
      | (Inr _, w2) \<Rightarrow>
     (case scanner_search b w2 of
        (Inl e, w3) \<Rightarrow> (Inl e, w3)
      | (Inr _, w3) \<Rightarrow>
          (let w4 = sleep 0.05 w3;
               w5 = logged (LogInfo_AvailableNodes (scanner_nodes w4)) w4
           in case node_ids cfg of
                None \<Rightarrow> (Inr (), w5)
              | Some ids \<Rightarrow> validate_node_ids ids w5))))"

definition init :: "bus \<Rightarrow> config \<Rightarrow> (exn + unit) \<times> network" where
  \<comment> \<open>\<^verbatim>\<open>__init__\<close>: \<^verbatim>\<open>except Exception\<close> logs and does not re-raise; the \<^verbatim>\<open>finally\<close>
      block (lines 95--103) is the text of \<^verbatim>\<open>disconnectNetwork\<close> and decides the outcome\<close>
  "init b cfg =
     (case init_try b cfg fresh_network of
        (Inl e, w1) \<Rightarrow> disconnectNetwork b (logged (LogError_Exc e) w1)
      | (Inr _, w1) \<Rightarrow> disconnectNetwork b w1)"

subsection \<open>NMT and operation state\<close>

definition setNMTPreOperation :: "pyval \<Rightarrow> network \<Rightarrow> (exn + unit) \<times> network" where
  "setNMTPreOperation node_ids' w =
     (case node_ids' of
        PList ids \<Rightarrow> (Inr (), w)
      | _ \<Rightarrow> (Inl Exc_NotList, w))"

text \<open>
  Lines 158--160: the loop reads the node's state and, while it is not the target,
  reads the clock; nothing in its body waits. It has no bound of its own, so not
  returning is the value \<open>None\<close>.
\<close>

partial_function (option) poll_state ::
  "bus \<Rightarrow> int \<Rightarrow> real \<Rightarrow> network \<Rightarrow> ((exn + unit) \<times> network) option" where
  "poll_state b i timeout w =
     (case get_node_state b i w of
        (Inl e, w1) \<Rightarrow> Some (Inl e, w1)
      | (Inr s, w1) \<Rightarrow>
          if s \<noteq> ''OPERATION ENABLED'' then
            (case time_time b w1 of
               (t, w2) \<Rightarrow>
                 if t > timeout then Some (Inl (Exc_Timeout i), w2)
                 else poll_state b i timeout w2)
          else Some (Inr (), w1))"

declare poll_state.simps [code]

fun enable_loop :: "bus \<Rightarrow> pyval list \<Rightarrow> network \<Rightarrow> ((exn + unit) \<times> network) option" where
  "enable_loop b [] w = Some (Inr (), w)"
| "enable_loop b (v # ids) w =
     (case v of
        PInt i \<Rightarrow>
          if \<not> in_network i w then Some (Inl (Exc_NotAvailable i), w)
          else
            (case time_time b w of
               (t, w1) \<Rightarrow>
            (case set_node_state b i ''OPERATION ENABLED'' w1 of
               (Inl e, w2) \<Rightarrow> Some (Inl e, w2)
             | (Inr _, w2) \<Rightarrow>
            (case poll_state b i (t + 15) w2 of
               None \<Rightarrow> None
             | Some (Inl e, w3) \<Rightarrow> Some (Inl e, w3)
             | Some (Inr _, w3) \<Rightarrow> enable_loop b ids (sleep 0.001 w3))))
      | _ \<Rightarrow> Some (Inl (Exc_NotInt v), w))"

definition enableOperation :: "bus \<Rightarrow> pyval \<Rightarrow> network \<Rightarrow> ((exn + unit) \<times> network) option" where
  "enableOperation b node_ids' w =
     (case node_ids' of
        PList ids \<Rightarrow> enable_loop b ids w
      | _ \<Rightarrow> Some (Inl Exc_NotList, w))"

subsection \<open>Telemetry and set-point accessors\<close>

text \<open>Lines 163--238: each body is \<^verbatim>\<open>pass\<close>; the call returns \<^verbatim>\<open>None\<close>.\<close>

definition getOperationStatus :: "pyval \<Rightarrow> network \<Rightarrow> (exn + pyval) \<times> network" where
  "getOperationStatus node_id w = (Inr PNone, w)"

definition getNMTStatus :: "pyval \<Rightarrow> network \<Rightarrow> (exn + pyval) \<times> network" where
  "getNMTStatus node_id w = (Inr PNone, w)"

definition getVelocity :: "pyval \<Rightarrow> network \<Rightarrow> (exn + pyval) \<times> network" where
  "getVelocity node_id w = (Inr PNone, w)"

definition getEncoder :: "pyval \<Rightarrow> network \<Rightarrow> (exn + pyval) \<times> network" where
  "getEncoder node_id w = (Inr PNone, w)"

definition setTargetVelocity :: "pyval \<Rightarrow> pyval \<Rightarrow> network \<Rightarrow> (exn + pyval) \<times> network" where
  "setTargetVelocity node_id vel w = (Inr PNone, w)"

section \<open>Auxiliary predicates and example inputs\<close>

text \<open>
  What the validation loop of the constructor accepts for one expected id, given the
  ids found by the scan: an \<^verbatim>\<open>int\<close> between 0 and 127 that is among them.
\<close>

definition expected_ok :: "int list \<Rightarrow> pyval \<Rightarrow> bool" where
  "expected_ok ds v =
     (case v of PInt i \<Rightarrow> 0 \<le> i \<and> i \<le> 127 \<and> i \<in> set ds | _ \<Rightarrow> False)"

definition example_node :: node where
  "example_node = \<lparr>nmt_state = ''OPERATIONAL'', guarding = True\<rparr>"

text \<open>
  A bus on which every call succeeds, nodes 2 and 3 answer the scan, a node reports
  \<^verbatim>\<open>SWITCHED ON\<close> at the first read of its state and \<^verbatim>\<open>OPERATION ENABLED\<close> from then on,
  and the clock advances by a millisecond per reading.
\<close>

definition example_bus :: bus where
  "example_bus =
     \<lparr>connect_err = None, check_err = None, search_res = Inr [2, 3],
      nmt_write_err = (\<lambda>i. None), stop_guard_err = (\<lambda>i. None),
      sync_stop_err = None, disconnect_err = None,
      state_write_err = (\<lambda>i. None),
      observe = (\<lambda>i k. Inr (if k = 0 then ''SWITCHED ON'' else ''OPERATION ENABLED'')),
      time_at = (\<lambda>k. real k / 1000)\<rparr>"

text \<open>A connected network whose dictionary holds the given node ids.\<close>

definition example_network :: "int list \<Rightarrow> network" where
  "example_network ks =
     \<lparr>connected = True, nodes = map (\<lambda>k. (k, example_node)) ks, scanner_nodes = ks,
      sync_running = True, calls = [], logs = [], slept = 0, state_reads = 0,
      time_reads = 0\<rparr>"

definition example_config :: "pyval list option \<Rightarrow> config" where
  "example_config ids =
     \<lparr>channel = ''can0'', bustype = ''socketcan'', bitrate = 250000, node_ids = ids,
      debug = False\<rparr>"

text \<open>The same bus, except that the NMT state write to node \<open>j\<close> raises.\<close>

definition example_bus_nmt_fails :: "int \<Rightarrow> bus" where
  "example_bus_nmt_fails j =
     example_bus\<lparr>nmt_write_err :=
       (\<lambda>i. if i = j then Some (LibError ''NMT write failed'') else None)\<rparr>"



section \<open>Properties\<close>

subsection \<open>The constructor never raises\<close>

lemma validate_node_ids_nodes: "nodes (snd (validate_node_ids ids w)) = nodes w"
  by (induction ids) (auto simp: logged_def split: pyval.splits)

lemma init_try_nodes: "nodes (snd (init_try b cfg w)) = nodes w"
  by (auto simp: init_try_def net_connect_def net_check_def scanner_search_def called_def
      logged_def sleep_def Let_def validate_node_ids_nodes
      split: option.splits sum.splits prod.splits)

lemma disconnectNetwork_no_nodes:
  "nodes w = [] \<Longrightarrow>
   disconnectNetwork b w = (Inr (), logged (LogError ''going to exit... stopping...'') w)"
  by (simp add: disconnectNetwork_def truthy_def logged_def)

lemma init_try_fresh_nodes: "init_try b cfg fresh_network = (r, w1) \<Longrightarrow> nodes w1 = []"
  using init_try_nodes [of b cfg fresh_network] by (simp add: fresh_network_def)

text \<open>
  The constructor builds a new network object and never adds a node to it, so the
  \<^verbatim>\<open>finally\<close> block finds an empty mapping, and the outcome is a normal return.
\<close>

lemma init_eq:
  "init b cfg =
     (case init_try b cfg fresh_network of
        (Inl e, w1) \<Rightarrow>
          (Inr (), logged (LogError ''going to exit... stopping...'')
                     (logged (LogError_Exc e) w1))
      | (Inr u, w1) \<Rightarrow> (Inr (), logged (LogError ''going to exit... stopping...'') w1))"
proof (cases "init_try b cfg fresh_network")
  case (Pair r w1)
  then have n: "nodes w1 = []" by (rule init_try_fresh_nodes)
  then have n': "nodes (logged m w1) = []" for m by (simp add: logged_def)
  show ?thesis
    by (cases r) (simp_all add: init_def Pair disconnectNetwork_no_nodes n n')
qed




subsection \<open>Validation of the expected node ids\<close>

lemma validate_node_ids_prefix:
  "\<forall>u\<in>set pre. expected_ok (scanner_nodes w) u \<Longrightarrow>
   validate_node_ids (pre @ rest) w = validate_node_ids rest w"
  by (induction pre) (auto simp: expected_ok_def split: pyval.splits)

lemma validate_node_ids_bad_head:
  "\<not> expected_ok (scanner_nodes w) v \<Longrightarrow>
   fst (validate_node_ids (v # post) w) =
     (case v of
        PInt i \<Rightarrow> if i < 0 \<or> 127 < i then Inl (Exc_NotInRange i)
                  else Inl (Exc_NotAvailableIn i (scanner_nodes w))
      | _ \<Rightarrow> Inl TypeError_OnlyIntegers)"
  by (cases v) (auto simp: expected_ok_def)

lemma init_try_reaches_validation:
  assumes "connect_err b = None" "check_err b = None" "search_res b = Inr ds"
    "node_ids cfg = Some ids"
  shows "init_try b cfg fresh_network =
           validate_node_ids ids
             \<lparr>connected = True, nodes = [], scanner_nodes = ds, sync_running = False,
              calls = [Connect, Check, Search], logs = [LogInfo_AvailableNodes ds],
              slept = 1 / 20, state_reads = 0, time_reads = 0\<rparr>"
  using assms
  by (simp add: init_try_def net_connect_def net_check_def scanner_search_def called_def
      logged_def sleep_def fresh_network_def)

lemma init_nodes: "nodes (snd (init b cfg)) = []"
proof (cases "init_try b cfg fresh_network")
  case (Pair r w1)
  then have "nodes w1 = []" by (rule init_try_fresh_nodes)
  then show ?thesis
    by (cases r) (simp_all add: init_eq Pair logged_def)
qed

text \<open>
  C3: when the connect, the check and the scan succeed and a list of expected ids is
  given, the constructor's validation raises at the first expected id that is not an
  \<^verbatim>\<open>int\<close> in \<open>[0,127]\<close> among the ids found: a \<^verbatim>\<open>TypeError\<close> for a value that is not an
  \<^verbatim>\<open>int\<close>, the out-of-range exception for an \<^verbatim>\<open>int\<close> outside \<open>[0,127]\<close>, the not-available
  exception for an id the scan did not find. It is all or nothing: one such id makes
  the whole validation raise, and the network's dictionary of nodes is empty afterwards,
  both when the \<^verbatim>\<open>try\<close> block ends and when the constructor returns.
\<close>

theorem discovery_validation_all_or_nothing:
  assumes "connect_err b = None" and "check_err b = None" and "search_res b = Inr ds"
    and "node_ids cfg = Some (pre @ v # post)"
    and "\<forall>u\<in>set pre. expected_ok ds u" and "\<not> expected_ok ds v"
  shows "fst (init_try b cfg fresh_network) =
           (case v of
              PInt i \<Rightarrow> if i < 0 \<or> 127 < i then Inl (Exc_NotInRange i)
                        else Inl (Exc_NotAvailableIn i ds)
            | _ \<Rightarrow> Inl TypeError_OnlyIntegers) \<and>
         nodes (snd (init_try b cfg fresh_network)) = [] \<and>
         nodes (snd (init b cfg)) = []"
proof -
  define w5 where "w5 =
     \<lparr>connected = True, nodes = [], scanner_nodes = ds, sync_running = False,
      calls = [Connect, Check, Search], logs = [LogInfo_AvailableNodes ds],
      slept = 1 / 20, state_reads = 0, time_reads = 0\<rparr>"
  have w5: "scanner_nodes w5 = ds" by (simp add: w5_def)
  have eq: "init_try b cfg fresh_network = validate_node_ids (pre @ v # post) w5"
    unfolding w5_def by (rule init_try_reaches_validation [OF assms(1-4)])
  have "\<forall>u\<in>set pre. expected_ok (scanner_nodes w5) u"
    using assms(5) by (simp add: w5)
  then have "validate_node_ids (pre @ v # post) w5 = validate_node_ids (v # post) w5"
    by (rule validate_node_ids_prefix)
  with eq have eq': "init_try b cfg fresh_network = validate_node_ids (v # post) w5"
    by (simp only:)
  have "\<not> expected_ok (scanner_nodes w5) v"
    using assms(6) by (simp add: w5)
  then have "fst (validate_node_ids (v # post) w5) =
     (case v of
        PInt i \<Rightarrow> if i < 0 \<or> 127 < i then Inl (Exc_NotInRange i)
                  else Inl (Exc_NotAvailableIn i (scanner_nodes w5))
      | _ \<Rightarrow> Inl TypeError_OnlyIntegers)"
    by (rule validate_node_ids_bad_head)
  then have 1: "fst (init_try b cfg fresh_network) =
           (case v of
              PInt i \<Rightarrow> if i < 0 \<or> 127 < i then Inl (Exc_NotInRange i)
                        else Inl (Exc_NotAvailableIn i ds)
            | _ \<Rightarrow> Inl TypeError_OnlyIntegers)"
    by (simp only: eq' w5)
  have 2: "nodes (snd (init_try b cfg fresh_network)) = []"
    using init_try_nodes [of b cfg fresh_network] by (simp add: fresh_network_def)
  have 3: "nodes (snd (init b cfg)) = []" by (rule init_nodes)
  from 1 2 3 show ?thesis by (simp only: simp_thms)
qed

theorem discovery_validation_all_or_nothing_witness:
  "expected_ok [2, 3] (PInt 2) \<and> expected_ok [2, 3] (PInt 3) \<and>
   \<not> expected_ok [2, 3] (PInt 5) \<and>
   fst (init_try example_bus (example_config (Some [PInt 2, PInt 3, PInt 5])) fresh_network) =
     Inl (Exc_NotAvailableIn 5 [2, 3]) \<and>
   nodes (snd (init_try example_bus (example_config (Some [PInt 2, PInt 3, PInt 5])) fresh_network)) = [] \<and>
   nodes (snd (init example_bus (example_config (Some [PInt 2, PInt 3, PInt 5])))) = []"
proof -
  have a: "connect_err example_bus = None" "check_err example_bus = None"
    "search_res example_bus = Inr [2, 3]"
    by (simp_all add: example_bus_def)
  have c: "node_ids (example_config (Some [PInt 2, PInt 3, PInt 5])) =
             Some ([PInt 2, PInt 3] @ PInt 5 # [])"
    by (simp add: example_config_def)
  have p: "\<forall>u\<in>set [PInt 2, PInt 3]. expected_ok [2, 3] u" by (simp add: expected_ok_def)
  have n: "\<not> expected_ok [2, 3] (PInt 5)" by (simp add: expected_ok_def)
  show ?thesis
    using discovery_validation_all_or_nothing [OF a c p n] n
    by (simp add: expected_ok_def)
qed

lemma validate_node_ids_success:
  "fst (validate_node_ids ids w) = Inr () \<Longrightarrow> v \<in> set ids \<Longrightarrow>
   \<exists>j. v = PInt j \<and> 0 \<le> j \<and> j \<le> 127 \<and> j \<in> set (scanner_nodes w)"
  by (induction ids) (auto split: pyval.splits if_splits)

lemma validate_node_ids_not_in_range:
  "fst (validate_node_ids ids w) = Inl (Exc_NotInRange i) \<Longrightarrow> i < 0 \<or> 127 < i"
  by (induction ids) (auto split: pyval.splits if_splits)

text \<open>
  C8, as the code has it: the range the constructor validates expected ids against is
  \<open>[0,127]\<close>. An id below 0 or above 127 is rejected as out of range, nothing else is,
  and a validation that succeeds has seen only \<^verbatim>\<open>int\<close>s in \<open>[0,127]\<close>. An expected id of 0
  passes the range check: it is rejected only when the scan did not find it, and then
  as not available.
\<close>

theorem validation_range_is_0_to_127:
  "(i < 0 \<or> 127 < i \<longrightarrow> fst (validate_node_ids (PInt i # ids) w) = Inl (Exc_NotInRange i)) \<and>
   (fst (validate_node_ids ids w) = Inl (Exc_NotInRange i) \<longrightarrow> i < 0 \<or> 127 < i) \<and>
   (fst (validate_node_ids ids w) = Inr () \<longrightarrow>
      (\<forall>v\<in>set ids. \<exists>j. v = PInt j \<and> 0 \<le> j \<and> j \<le> 127)) \<and>
   fst (validate_node_ids (PInt 0 # ids) w) =
     (if 0 \<in> set (scanner_nodes w) then fst (validate_node_ids ids w)
      else Inl (Exc_NotAvailableIn 0 (scanner_nodes w)))"
proof -
  have a: "fst (validate_node_ids ids w) = Inr () \<longrightarrow>
      (\<forall>v\<in>set ids. \<exists>j. v = PInt j \<and> 0 \<le> j \<and> j \<le> 127)"
    using validate_node_ids_success [of ids w] by blast
  have b: "fst (validate_node_ids ids w) = Inl (Exc_NotInRange i) \<longrightarrow> i < 0 \<or> 127 < i"
    using validate_node_ids_not_in_range [of ids w i] by blast
  have c: "i < 0 \<or> 127 < i \<longrightarrow>
      fst (validate_node_ids (PInt i # ids) w) = Inl (Exc_NotInRange i)"
    by auto
  have d: "fst (validate_node_ids (PInt 0 # ids) w) =
     (if 0 \<in> set (scanner_nodes w) then fst (validate_node_ids ids w)
      else Inl (Exc_NotAvailableIn 0 (scanner_nodes w)))"
    by simp
  from a b c d show ?thesis by (simp only: simp_thms)
qed

theorem validation_range_is_0_to_127_witness:
  "fst (validate_node_ids [PInt 0, PInt 127] (example_network [0, 127])) = Inr () \<and>
   (\<exists>j. PInt 0 = PInt j \<and> 0 \<le> j \<and> j \<le> 127) \<and>
   (\<exists>j. PInt 127 = PInt j \<and> 0 \<le> j \<and> j \<le> 127) \<and>
   fst (validate_node_ids [PInt 128] (example_network [0, 127])) = Inl (Exc_NotInRange 128)"
proof -
  have s: "fst (validate_node_ids [PInt 0, PInt 127] (example_network [0, 127])) = Inr ()"
    by (simp add: example_network_def)
  show ?thesis
    using validation_range_is_0_to_127 [of 128 "[]" "example_network [0, 127]"]
      validation_range_is_0_to_127 [of 0 "[PInt 0, PInt 127]" "example_network [0, 127]"] s
    by simp
qed

text \<open>
  C8 as the specification states it fails: with nodes 2 and 3 on the bus, an expected
  id of 0 is not rejected as out of range but as not available.
\<close>

theorem node_id_zero_not_out_of_range_counterexample:
  "fst (init_try example_bus (example_config (Some [PInt 0])) fresh_network) =
     Inl (Exc_NotAvailableIn 0 [2, 3]) \<and>
   fst (init_try example_bus (example_config (Some [PInt 0])) fresh_network) \<noteq>
     Inl (Exc_NotInRange 0)"
  by (simp add: init_try_def example_bus_def example_config_def fresh_network_def
      net_connect_def net_check_def scanner_search_def called_def logged_def sleep_def)

subsection \<open>\<^verbatim>\<open>setNMTPreOperation\<close>\<close>

text \<open>
  C9: for a list argument, whatever it holds, \<^verbatim>\<open>setNMTPreOperation\<close> returns normally
  and leaves the network, the trace of library calls included, as it was; an argument
  that is not a list makes it raise, again without touching anything.
\<close>

theorem setNMTPreOperation_list_is_noop:
  "setNMTPreOperation (PList ids) w = (Inr (), w) \<and>
   ((\<forall>xs. v \<noteq> PList xs) \<longrightarrow> setNMTPreOperation v w = (Inl Exc_NotList, w))"
  by (cases v) (simp_all add: setNMTPreOperation_def)

theorem setNMTPreOperation_list_is_noop_witness:
  "setNMTPreOperation (PList [PStr ''x'', PInt 200, PInt 99]) (example_network [2, 3])
     = (Inr (), example_network [2, 3]) \<and>
   (\<forall>xs. PInt 2 \<noteq> PList xs) \<and>
   setNMTPreOperation (PInt 2) (example_network [2, 3]) = (Inl Exc_NotList, example_network [2, 3])"
  using setNMTPreOperation_list_is_noop
    [of "[PStr ''x'', PInt 200, PInt 99]" "example_network [2, 3]" "PInt 2"]
  by simp

subsection \<open>Teardown\<close>

text \<open>
  C10: on a network whose dictionary holds no node, \<^verbatim>\<open>disconnectNetwork\<close> writes its
  log line and returns; it makes no library call, so the transport is as connected as
  it was.
\<close>

theorem disconnectNetwork_empty_registry:
  assumes "nodes w = []"
  shows "disconnectNetwork b w =
           (Inr (), logged (LogError ''going to exit... stopping...'') w) \<and>
         calls (snd (disconnectNetwork b w)) = calls w \<and>
         connected (snd (disconnectNetwork b w)) = connected w"
  using assms by (simp add: disconnectNetwork_def truthy_def logged_def)

theorem disconnectNetwork_empty_registry_witness:
  "nodes (example_network []) = [] \<and>
   calls (snd (disconnectNetwork example_bus (example_network []))) = [] \<and>
   connected (snd (disconnectNetwork example_bus (example_network []))) = True"
proof -
  have h: "nodes (example_network []) = []" by (simp add: example_network_def)
  show ?thesis
    using disconnectNetwork_empty_registry [OF h, of example_bus] h
    by (simp add: example_network_def logged_def)
qed

text \<open>
  C2, as the code has it: teardown is not best-effort. It catches nothing, so a call
  that raises is not logged and passed over: it ends teardown with that exception.
  When the NMT write of \<^verbatim>\<open>PRE-OPERATIONAL\<close> to the first node raises, or its
  \<^verbatim>\<open>stop_node_guarding\<close> does, no further library call is made, and the sync producer
  and the connection are as they were. On a network of exactly one node the calls
  are, in this order, the NMT write, \<^verbatim>\<open>stop_node_guarding\<close>, \<^verbatim>\<open>sync.stop\<close> and
  \<^verbatim>\<open>disconnect\<close>; the first that raises gives the outcome, and when none does the node is
  \<^verbatim>\<open>PRE-OPERATIONAL\<close> with guarding stopped, the sync producer is stopped and the
  transport is disconnected.
\<close>

theorem disconnectNetwork_propagates_failure:
  assumes "nodes w = (i, n) # rest"
  shows "(nmt_write_err b i = Some e \<longrightarrow>
            fst (disconnectNetwork b w) = Inl e \<and>
            calls (snd (disconnectNetwork b w)) = calls w @ [NmtWrite i ''PRE-OPERATIONAL''] \<and>
            sync_running (snd (disconnectNetwork b w)) = sync_running w \<and>
            connected (snd (disconnectNetwork b w)) = connected w) \<and>
         (nmt_write_err b i = None \<and> stop_guard_err b i = Some e \<longrightarrow>
            fst (disconnectNetwork b w) = Inl e \<and>
            calls (snd (disconnectNetwork b w)) =
              calls w @ [NmtWrite i ''PRE-OPERATIONAL'', StopNodeGuarding i] \<and>
            sync_running (snd (disconnectNetwork b w)) = sync_running w \<and>
            connected (snd (disconnectNetwork b w)) = connected w) \<and>
         (rest = [] \<longrightarrow>
            fst (disconnectNetwork b w) =
              (case nmt_write_err b i of Some e \<Rightarrow> Inl e | None \<Rightarrow>
               case stop_guard_err b i of Some e \<Rightarrow> Inl e | None \<Rightarrow>
               case sync_stop_err b of Some e \<Rightarrow> Inl e | None \<Rightarrow>
               case disconnect_err b of Some e \<Rightarrow> Inl e | None \<Rightarrow> Inr ()) \<and>
            (fst (disconnectNetwork b w) = Inr () \<longrightarrow>
               nodes (snd (disconnectNetwork b w)) =
                 [(i, n\<lparr>nmt_state := ''PRE-OPERATIONAL'', guarding := False\<rparr>)] \<and>
               calls (snd (disconnectNetwork b w)) =
                 calls w @ [NmtWrite i ''PRE-OPERATIONAL'', StopNodeGuarding i, SyncStop,
                            Disconnect] \<and>
               \<not> sync_running (snd (disconnectNetwork b w)) \<and>
               \<not> connected (snd (disconnectNetwork b w))))"
  using assms
  by (auto simp: disconnectNetwork_def truthy_def logged_def nmt_set_state_def
      stop_node_guarding_def sync_stop_def net_disconnect_def called_def update_node_def
      split: option.splits)

theorem disconnectNetwork_propagates_failure_witness:
  "nodes (example_network [1]) = (1, example_node) # [] \<and>
   fst (disconnectNetwork example_bus (example_network [1])) = Inr () \<and>
   nodes (snd (disconnectNetwork example_bus (example_network [1]))) =
     [(1, example_node\<lparr>nmt_state := ''PRE-OPERATIONAL'', guarding := False\<rparr>)] \<and>
   \<not> sync_running (snd (disconnectNetwork example_bus (example_network [1]))) \<and>
   \<not> connected (snd (disconnectNetwork example_bus (example_network [1]))) \<and>
   nodes (example_network [1, 2, 3]) = (1, example_node) # map (\<lambda>k. (k, example_node)) [2, 3] \<and>
   nmt_write_err (example_bus_nmt_fails 1) 1 = Some (LibError ''NMT write failed'') \<and>
   fst (disconnectNetwork (example_bus_nmt_fails 1) (example_network [1, 2, 3])) =
     Inl (LibError ''NMT write failed'') \<and>
   calls (snd (disconnectNetwork (example_bus_nmt_fails 1) (example_network [1, 2, 3]))) =
     [NmtWrite 1 ''PRE-OPERATIONAL''] \<and>
   connected (snd (disconnectNetwork (example_bus_nmt_fails 1) (example_network [1, 2, 3])))"
proof -
  have h1: "nodes (example_network [1]) = (1, example_node) # []"
    by (simp add: example_network_def)
  have h3: "nodes (example_network [1, 2, 3]) =
              (1, example_node) # map (\<lambda>k. (k, example_node)) [2, 3]"
    by (simp add: example_network_def)
  have e: "nmt_write_err example_bus 1 = None" "stop_guard_err example_bus 1 = None"
    "sync_stop_err example_bus = None" "disconnect_err example_bus = None"
    by (simp_all add: example_bus_def)
  have f: "nmt_write_err (example_bus_nmt_fails 1) 1 = Some (LibError ''NMT write failed'')"
    by (simp add: example_bus_nmt_fails_def)
  have c: "connected (example_network ks)" "calls (example_network ks) = []" for ks
    by (simp_all add: example_network_def)
  show ?thesis
    using disconnectNetwork_propagates_failure [OF h1, of example_bus]
      disconnectNetwork_propagates_failure
        [OF h3, of "example_bus_nmt_fails 1" "LibError ''NMT write failed''"]
      h1 h3 e f c
    by simp
qed

text \<open>
  C2 as the specification states it fails: with nodes 1, 2, 3 registered and the NMT
  write to node 1 raising, \<^verbatim>\<open>disconnectNetwork\<close> raises that exception after this one
  call; the transport is still connected and nodes 2 and 3 are untouched.
\<close>

theorem disconnectNetwork_not_best_effort_counterexample:
  "fst (disconnectNetwork (example_bus_nmt_fails 1) (example_network [1, 2, 3])) =
     Inl (LibError ''NMT write failed'') \<and>
   connected (snd (disconnectNetwork (example_bus_nmt_fails 1) (example_network [1, 2, 3]))) = True \<and>
   calls (snd (disconnectNetwork (example_bus_nmt_fails 1) (example_network [1, 2, 3]))) =
     [NmtWrite 1 ''PRE-OPERATIONAL''] \<and>
   map_of (nodes (snd (disconnectNetwork (example_bus_nmt_fails 1) (example_network [1, 2, 3])))) 2 =
     Some example_node \<and>
   map_of (nodes (snd (disconnectNetwork (example_bus_nmt_fails 1) (example_network [1, 2, 3])))) 3 =
     Some example_node"
  by (simp add: disconnectNetwork_def truthy_def logged_def nmt_set_state_def called_def
      update_node_def example_bus_nmt_fails_def example_bus_def example_network_def)

subsection \<open>\<^verbatim>\<open>enableOperation\<close>\<close>














lemma enable_loop_append:
  "enable_loop b pre w = Some (Inr (), w') \<Longrightarrow>
   enable_loop b (pre @ rest) w = enable_loop b rest w'"
proof (induction pre arbitrary: w)
  case Nil
  then show ?case by simp
next
  case (Cons v pre)
  then show ?case
    by (auto split: pyval.splits if_splits prod.splits sum.splits option.splits)
qed

text \<open>
  C6, as the code has it: \<^verbatim>\<open>enableOperation\<close> checks each id when its turn comes, after
  the ids before it in the list were enabled. An id that is not an \<^verbatim>\<open>int\<close> raises the
  not-int exception and an \<^verbatim>\<open>int\<close> that is not in the network raises the not-available
  exception, in both cases without any library call for that id or a later one. There
  is no range check: an \<^verbatim>\<open>int\<close> outside \<open>[0,127]\<close> is rejected as not available, given
  that the network holds only ids in \<open>[0,127]\<close>. With \<open>pre = []\<close> the offending id is the
  first of the list and nothing has touched the transport.
\<close>

theorem enableOperation_checks_each_id_in_turn:
  assumes "enable_loop b pre w = Some (Inr (), w')"
  shows "((\<forall>j. v \<noteq> PInt j) \<longrightarrow>
            enableOperation b (PList (pre @ v # rest)) w = Some (Inl (Exc_NotInt v), w')) \<and>
         (\<not> in_network i w' \<longrightarrow>
            enableOperation b (PList (pre @ PInt i # rest)) w = Some (Inl (Exc_NotAvailable i), w')) \<and>
         ((\<forall>k\<in>set (map fst (nodes w')). 0 \<le> k \<and> k \<le> 127) \<and> (i < 0 \<or> 127 < i) \<longrightarrow>
            enableOperation b (PList (pre @ PInt i # rest)) w = Some (Inl (Exc_NotAvailable i), w'))"
proof -
  have a: "enableOperation b (PList (pre @ u # rest)) w = enable_loop b (u # rest) w'" for u
    using enable_loop_append [OF assms] by (simp add: enableOperation_def)
  have 1: "(\<forall>j. v \<noteq> PInt j) \<longrightarrow>
            enableOperation b (PList (pre @ v # rest)) w = Some (Inl (Exc_NotInt v), w')"
    unfolding a by (cases v) simp_all
  have 2: "\<not> in_network i w' \<longrightarrow>
            enableOperation b (PList (pre @ PInt i # rest)) w = Some (Inl (Exc_NotAvailable i), w')"
    unfolding a by simp
  have 3: "(\<forall>k\<in>set (map fst (nodes w')). 0 \<le> k \<and> k \<le> 127) \<and> (i < 0 \<or> 127 < i) \<longrightarrow>
             \<not> in_network i w'"
    by (auto simp: in_network_def)
  from 1 2 3 show ?thesis by blast
qed

theorem enableOperation_checks_each_id_in_turn_witness:
  "enable_loop example_bus [] (example_network [2, 3]) = Some (Inr (), example_network [2, 3]) \<and>
   (\<forall>j. PFloat 1.5 \<noteq> PInt j) \<and>
   enableOperation example_bus (PList [PFloat 1.5, PInt 2]) (example_network [2, 3]) =
     Some (Inl (Exc_NotInt (PFloat 1.5)), example_network [2, 3]) \<and>
   \<not> in_network 200 (example_network [2, 3]) \<and>
   map fst (nodes (example_network [2, 3])) = [2, 3] \<and>
   enableOperation example_bus (PList [PInt 200, PInt 2]) (example_network [2, 3]) =
     Some (Inl (Exc_NotAvailable 200), example_network [2, 3])"
proof -
  have a: "enable_loop example_bus [] (example_network [2, 3]) =
             Some (Inr (), example_network [2, 3])"
    by simp
  have b: "\<not> in_network 200 (example_network [2, 3])"
    "\<forall>k\<in>set (map fst (nodes (example_network [2, 3]))). 0 \<le> k \<and> k \<le> 127"
    by (simp_all add: in_network_def example_network_def)
  show ?thesis
    using enableOperation_checks_each_id_in_turn [OF a, of "PFloat 1.5" "[PInt 2]" 200] a b
    by (simp add: example_network_def)
qed

text \<open>
  C6 as the specification states it fails: with node 1 in the network,
  \<^verbatim>\<open>enableOperation([1, 'x'])\<close> raises the not-int exception for \<^verbatim>\<open>'x'\<close> only after it has
  written the state of node 1 and read it back twice.
\<close>

theorem enableOperation_late_rejection_counterexample:
  "map_option fst (enableOperation example_bus (PList [PInt 1, PStr ''x'']) (example_network [1])) =
     Some (Inl (Exc_NotInt (PStr ''x''))) \<and>
   map_option (\<lambda>r. calls (snd r))
     (enableOperation example_bus (PList [PInt 1, PStr ''x'']) (example_network [1])) =
     Some [StateWrite 1 ''OPERATION ENABLED'', StateRead 1, StateRead 1]"
  by code_simp

subsection \<open>Telemetry accessors\<close>

text \<open>
  C7 does not hold of the code: on a network that holds nodes 2 and 3 only, each of the
  four telemetry accessors called with node id 99 returns \<^verbatim>\<open>None\<close> and raises nothing.
\<close>

theorem telemetry_accessors_return_none:
  "\<not> in_network 99 (example_network [2, 3]) \<and>
   getEncoder (PInt 99) (example_network [2, 3]) = (Inr PNone, example_network [2, 3]) \<and>
   getVelocity (PInt 99) (example_network [2, 3]) = (Inr PNone, example_network [2, 3]) \<and>
   getNMTStatus (PInt 99) (example_network [2, 3]) = (Inr PNone, example_network [2, 3]) \<and>
   getOperationStatus (PInt 99) (example_network [2, 3]) = (Inr PNone, example_network [2, 3])"
  by (simp add: getEncoder_def getVelocity_def getNMTStatus_def getOperationStatus_def
      in_network_def example_network_def)

end
